theory Spec2Isabelle
  imports Main
begin

section \<open>JavaScript values, promises and the promise registry\<close>

text \<open>
  The resource model of \<^verbatim>\<open>src/models/Resource.ts\<close> stores values of the TypeScript types
  \<^verbatim>\<open>Awaited<T> | undefined\<close> and \<^verbatim>\<open>any\<close>. The code inspects them in three ways only:
  strict comparison with \<^verbatim>\<open>undefined\<close>, loose comparison with \<^verbatim>\<open>null\<close>, and
  truthiness. The datatype below has one constructor for each class of value these
  three tests distinguish. Numbers are the integer-valued ones and \<^verbatim>\<open>NaN\<close>; \<open>JObj\<close> is a
  reference to any object that is not a promise (an \<^verbatim>\<open>Error\<close> instance, for example),
  identified by its address.
\<close>

datatype jsval =
    JUndefined
  | JNull
  | JBool bool
  | JNum int
  | JNaN
  | JStr string
  | JObj nat

text \<open>\<^verbatim>\<open>if (v)\<close>: the falsy values are undefined, null, false, 0, NaN and the empty string.\<close>

fun truthy :: "jsval \<Rightarrow> bool" where
  "truthy JUndefined = False"
| "truthy JNull = False"
| "truthy (JBool b) = b"
| "truthy (JNum n) = (n \<noteq> 0)"
| "truthy JNaN = False"
| "truthy (JStr s) = (s \<noteq> [])"
| "truthy (JObj a) = True"

text \<open>\<^verbatim>\<open>v == null\<close> (loose equality): true for null and undefined only.\<close>

fun nullish :: "jsval \<Rightarrow> bool" where
  "nullish JUndefined = True"
| "nullish JNull = True"
| "nullish v = False"

text \<open>
  A promise is identified by the index at which it was allocated; the heap records the
  settlement state of every promise allocated so far.
\<close>

type_synonym promise = nat

datatype pstate = Pending | Fulfilled jsval | Rejected jsval

text \<open>
  \<^verbatim>\<open>PromiseControls\<close> is the pair \<^verbatim>\<open>{ resolve, reject }\<close> captured from the executor of one
  promise (\<^verbatim>\<open>renew\<close> is the only place that builds one), so it is determined by that
  promise. Both members are functions, hence the \<^verbatim>\<open>instanceof Function\<close> tests of
  \<^verbatim>\<open>resolve\<close> and \<^verbatim>\<open>reject\<close> succeed on every stored value.
\<close>

datatype PromiseControls = Controls promise

type_synonym registry = "promise \<rightharpoonup> PromiseControls"

text \<open>
  The module-level \<^verbatim>\<open>defaultStorage\<close> and any further storage object a caller creates and
  passes in. \<^verbatim>\<open>nextResource\<close> and \<^verbatim>\<open>createResource\<close> take the storage as a parameter that
  defaults to \<^verbatim>\<open>defaultStorage\<close>.
\<close>

datatype storage_ref = defaultStorage | customStorage nat

record world =
  heap :: "pstate list"
  storages :: "storage_ref \<Rightarrow> registry"

definition empty_world :: world where
  "empty_world = \<lparr> heap = [], storages = (\<lambda>s. Map.empty) \<rparr>"

text \<open>
  \<^verbatim>\<open>ResourceStorage.ts\<close>, the class behind \<^verbatim>\<open>IResourceStorage\<close> and \<^verbatim>\<open>defaultStorage\<close>, is
  imported by \<^verbatim>\<open>Resource.ts\<close> but is not among the sources. Its four operations follow the
  contract the specification gives for the promise registry: a keyed store from a promise
  handle to its controls, where \<^verbatim>\<open>get\<close> and \<^verbatim>\<open>delete\<close> on an unknown handle do nothing.
\<close>

text \<open>
  Modelled from the spec: \<^verbatim>\<open>set(promiseHandle, controls)\<close> of the missing
  \<^verbatim>\<open>ResourceStorage\<close>; it stores the controls under the handle.
\<close>

definition storage_set :: "storage_ref \<Rightarrow> promise \<Rightarrow> PromiseControls \<Rightarrow> world \<Rightarrow> world" where
  "storage_set s p c w = w\<lparr> storages := (storages w)(s := (storages w s)(p \<mapsto> c)) \<rparr>"

text \<open>
  Modelled from the spec: \<^verbatim>\<open>get(promiseHandle)\<close> of the missing \<^verbatim>\<open>ResourceStorage\<close>; the
  controls stored under the handle, or absent.
\<close>

definition storage_get :: "storage_ref \<Rightarrow> promise \<Rightarrow> world \<Rightarrow> PromiseControls option" where
  "storage_get s p w = storages w s p"

text \<open>
  Modelled from the spec: \<^verbatim>\<open>delete(promiseHandle)\<close> of the missing \<^verbatim>\<open>ResourceStorage\<close>; it
  removes the entry, and does nothing for an unknown handle.
\<close>

definition storage_delete :: "storage_ref \<Rightarrow> promise \<Rightarrow> world \<Rightarrow> world" where
  "storage_delete s p w = w\<lparr> storages := (storages w)(s := (storages w s)(p := None)) \<rparr>"

text \<open>
  Modelled from the spec: \<^verbatim>\<open>has(promiseHandle)\<close> of the missing \<^verbatim>\<open>ResourceStorage\<close>.
\<close>

definition storage_has :: "storage_ref \<Rightarrow> promise \<Rightarrow> world \<Rightarrow> bool" where
  "storage_has s p w = (storages w s p \<noteq> None)"

text \<open>
  \<^verbatim>\<open>new Promise(executor)\<close> allocates a pending promise; \<^verbatim>\<open>Promise.resolve(v)\<close> on a value
  that is not a promise allocates one that is already fulfilled with \<open>v\<close>.
\<close>

definition new_promise :: "pstate \<Rightarrow> world \<Rightarrow> promise \<times> world" where
  "new_promise st w = (length (heap w), w\<lparr> heap := heap w @ [st] \<rparr>)"

text \<open>
  Calling the \<^verbatim>\<open>resolve\<close> or \<^verbatim>\<open>reject\<close> function of a promise settles it when it is still
  pending and does nothing otherwise.
\<close>

definition settle :: "promise \<Rightarrow> pstate \<Rightarrow> world \<Rightarrow> world" where
  "settle p st w =
     (if p < length (heap w) \<and> heap w ! p = Pending
      then w\<lparr> heap := (heap w)[p := st] \<rparr> else w)"

fun controls_resolve :: "PromiseControls \<Rightarrow> jsval \<Rightarrow> world \<Rightarrow> world" where
  "controls_resolve (Controls p) v w = settle p (Fulfilled v) w"

fun controls_reject :: "PromiseControls \<Rightarrow> jsval \<Rightarrow> world \<Rightarrow> world" where
  "controls_reject (Controls p) v w = settle p (Rejected v) w"

section \<open>The resource model (Resource.ts)\<close>

text \<open>
  \<^verbatim>\<open>ResourceLike<T>\<close> has the fields \<^verbatim>\<open>loading\<close>, \<^verbatim>\<open>data\<close> and \<^verbatim>\<open>error\<close>; the patch argument of
  \<^verbatim>\<open>nextResource\<close> has the same three fields, and \<^verbatim>\<open>Resource<T>\<close> extends it. \<^verbatim>\<open>loading\<close> is
  declared optional in \<^verbatim>\<open>ResourceLike\<close> and is read through its truthiness only, so an
  omitted field behaves as \<open>False\<close>; \<^verbatim>\<open>Resource\<close> and the patch declare it \<^verbatim>\<open>boolean\<close>.
  An omitted \<^verbatim>\<open>data\<close> of a patch is \<open>JUndefined\<close>.
\<close>

record ResourceLike =
  loading :: bool
  data :: jsval
  error :: jsval

datatype ResourceState = Unresolved | Pending_state | Ready | Refreshing | Errored

text \<open>
  The \<^verbatim>\<open>promise\<close> property does not exist on the function object before \<^verbatim>\<open>renew\<close> or
  \<^verbatim>\<open>createResource\<close> assigns it, which \<^verbatim>\<open>renew\<close>, \<^verbatim>\<open>resolve\<close>, \<^verbatim>\<open>reject\<close> and the accessor
  test for: \<open>None\<close> is that missing property.
\<close>

record Resource = ResourceLike +
  state :: ResourceState
  latest :: jsval
  promise :: "promise option"

text \<open>\<^verbatim>\<open>getResourceStateByData\<close>, lines 113 to 127: four tests in the order of the source.\<close>

definition getResourceStateByData :: "'a ResourceLike_scheme \<Rightarrow> ResourceState" where
  "getResourceStateByData i =
     (if data i \<noteq> JUndefined \<and> loading i then Refreshing
      else if loading i then Pending_state
      else if error i \<noteq> JUndefined then Errored
      else if truthy (data i) then Ready
      else Unresolved)"

text \<open>
  \<^verbatim>\<open>renew(storage, res)\<close>: delete the registration of the promise the resource carries, if it
  carries one, allocate a pending promise, store it in the resource and register its
  controls.
\<close>

definition renew :: "storage_ref \<Rightarrow> Resource \<Rightarrow> world \<Rightarrow> Resource \<times> world" where
  "renew storage res w =
     (let w1 = (case promise res of Some old \<Rightarrow> storage_delete storage old w | None \<Rightarrow> w);
          (p, w2) = new_promise Pending w1
      in (res\<lparr> promise := Some p \<rparr>, storage_set storage p (Controls p) w2))"

text \<open>
  \<^verbatim>\<open>resolve(storage, res)\<close>: look the resource's promise up in the storage, call the
  \<^verbatim>\<open>resolve\<close> control with \<^verbatim>\<open>res.data\<close> when there is an entry, and delete the entry.
\<close>

definition resolve :: "storage_ref \<Rightarrow> Resource \<Rightarrow> world \<Rightarrow> world" where
  "resolve storage res w =
     (case promise res of
        None \<Rightarrow> w
      | Some p \<Rightarrow>
          (let w1 = (case storage_get storage p w of
                       Some controls \<Rightarrow> controls_resolve controls (data res) w
                     | None \<Rightarrow> w)
           in storage_delete storage p w1))"

text \<open>
  \<^verbatim>\<open>reject(storage, res)\<close>, lines 192 to 201: the same, calling the \<^verbatim>\<open>reject\<close> control. The
  argument the source passes to it is \<^verbatim>\<open>res.data\<close>.
\<close>

definition reject :: "storage_ref \<Rightarrow> Resource \<Rightarrow> world \<Rightarrow> world" where
  "reject storage res w =
     (case promise res of
        None \<Rightarrow> w
      | Some p \<Rightarrow>
          (let w1 = (case storage_get storage p w of
                       Some controls \<Rightarrow> controls_reject controls (data res) w
                     | None \<Rightarrow> w)
           in storage_delete storage p w1))"

text \<open>
  The argument of \<^verbatim>\<open>createResource\<close> is a promise or a plain value; calling it without an
  argument passes \<open>ArgValue JUndefined\<close>.
\<close>

datatype init_arg = ArgPromise promise | ArgValue jsval

text \<open>
  The function object before any property is assigned. \<^verbatim>\<open>createResource\<close> assigns every
  field but \<^verbatim>\<open>promise\<close> before reading it, so only \<open>promise = None\<close> is ever observed.
\<close>

definition blank_resource :: Resource where
  "blank_resource =
     \<lparr> loading = False, data = JUndefined, error = JUndefined,
       state = Unresolved, latest = JUndefined, promise = None \<rparr>"

definition createResource :: "init_arg \<Rightarrow> storage_ref \<Rightarrow> world \<Rightarrow> Resource \<times> world" where
  "createResource d storage w =
     (let (res, w') =
            (case d of
               ArgPromise fetched \<Rightarrow>
                 renew storage (blank_resource\<lparr> data := JUndefined, loading := True \<rparr>) w
             | ArgValue v \<Rightarrow>
                 (let res0 = blank_resource\<lparr> data := v, loading := False \<rparr>
                  in if v \<noteq> JUndefined
                     then (let (p, w1) = new_promise (Fulfilled v) w
                           in (res0\<lparr> promise := Some p \<rparr>, w1))
                     else renew storage res0 w));
          res1 = res\<lparr> error := JUndefined, latest := JUndefined \<rparr>
      in (res1\<lparr> state := getResourceStateByData res1 \<rparr>, w'))"

text \<open>
  The accessor closure of \<^verbatim>\<open>createResource\<close>, lines 67 to 78. It either returns
  \<^verbatim>\<open>res.data\<close> or throws: the resource's promise, a freshly rejected promise carrying
  \<^verbatim>\<open>Error("incorrect resource state")\<close> when the resource has no promise, or \<^verbatim>\<open>res.error\<close>.
\<close>

datatype accessor_result =
    Returns jsval
  | Throws_promise promise
  | Throws_incorrect_state
  | Throws_error jsval

definition accessor :: "Resource \<Rightarrow> accessor_result" where
  "accessor res =
     (if loading res then
        (case promise res of
           None \<Rightarrow> Throws_incorrect_state
         | Some p \<Rightarrow> Throws_promise p)
      else if truthy (error res) then Throws_error (error res)
      else Returns (data res))"

text \<open>
  \<^verbatim>\<open>nextResource(target, data, storage)\<close>, lines 138 to 167. The result starts as
  \<^verbatim>\<open>createResource<T>()\<close>, called without arguments: no data and the default storage.
\<close>

definition nextResource ::
  "Resource \<Rightarrow> ResourceLike \<Rightarrow> storage_ref \<Rightarrow> world \<Rightarrow> Resource \<times> world" where
  "nextResource target d storage w =
     (let (result0, w0) = createResource (ArgValue JUndefined) defaultStorage w;
          result1 = result0\<lparr> data := data d, loading := loading d, error := error d \<rparr>;
          result2 = (if \<not> nullish (data result1)
                     then result1\<lparr> latest := data result1 \<rparr> else result1);
          result = result2\<lparr> state := getResourceStateByData result2 \<rparr>
      in if loading target \<noteq> loading result then
           (if loading result then renew storage result w0
            else if error result \<noteq> JUndefined then (result, reject storage result w0)
            else (result, resolve storage result w0))
         else (result\<lparr> promise := promise target \<rparr>, w0))"

section \<open>The hook useAsyncState\<close>

text \<open>
  \<^verbatim>\<open>useAsyncState\<close> keeps the last promise passed to \<^verbatim>\<open>set\<close> in the ref \<^verbatim>\<open>lastPrms\<close> and sends
  actions to the reducer of \<^verbatim>\<open>useAsyncStateReducer\<close>. That reducer is not among the
  sources, so the model records what the hook does to it: the sequence of actions
  dispatched, in order. The hook runs on one event loop: \<^verbatim>\<open>set\<close>, the continuation of
  \<^verbatim>\<open>asynHandler\<close> after its \<^verbatim>\<open>await\<close>, and the effect's cleanup each run to completion, and
  an execution is a sequence of such events.
\<close>

datatype action = LOADING promise | RESULT jsval | ERROR jsval | SYNC_RESULT jsval

text \<open>How an awaited promise settles.\<close>

datatype settlement = Resolved jsval | Rejected_with jsval

text \<open>A call of one of the two optional callbacks, with the value passed to it.\<close>

datatype callback_call = Completed jsval | Failed jsval

text \<open>
  The options \<^verbatim>\<open>onCompleted\<close> and \<^verbatim>\<open>onError\<close> are supplied by the caller. Each is absent
  (\<open>None\<close>) or a function that returns (\<open>None\<close>) or throws a value (\<open>Some e\<close>); the
  \<^verbatim>\<open>context\<close> option is only handed back to them. They are the options of the render in
  which the handler was created, fixed along an execution here, and the callbacks are
  taken not to call \<^verbatim>\<open>set\<close> of the same hook while they run.
\<close>

record opts =
  onCompleted :: "(jsval \<Rightarrow> jsval option) option"
  onError :: "(jsval \<Rightarrow> jsval option) option"

text \<open>
  \<open>lastPrms\<close> is \<^verbatim>\<open>lastPrms.current\<close> (\<open>None\<close> for \<^verbatim>\<open>null\<close>), \<open>dispatched\<close> the actions sent
  to the reducer so far, \<open>calls\<close> the callback calls made so far, and \<open>awaiting\<close> holds one
  entry for every invocation of \<^verbatim>\<open>asynHandler\<close> that is suspended at \<^verbatim>\<open>await val\<close>.
\<close>

record hook =
  lastPrms :: "promise option"
  dispatched :: "action list"
  calls :: "callback_call list"
  awaiting :: "promise list"

definition dispatch :: "action \<Rightarrow> hook \<Rightarrow> hook" where
  "dispatch a h = h\<lparr> dispatched := dispatched h @ [a] \<rparr>"

text \<open>\<^verbatim>\<open>asynHandler(val)\<close> up to its \<^verbatim>\<open>await\<close>.\<close>

definition asynHandler_start :: "promise \<Rightarrow> hook \<Rightarrow> hook" where
  "asynHandler_start val h = h\<lparr> awaiting := awaiting h @ [val] \<rparr>"

text \<open>
  The \<^verbatim>\<open>catch\<close> block of \<^verbatim>\<open>asynHandler\<close>. An exception of \<^verbatim>\<open>onError\<close> leaves the block and
  rejects the promise of the \<^verbatim>\<open>async\<close> function, which nothing observes.
\<close>

definition asynHandler_catch :: "opts \<Rightarrow> promise \<Rightarrow> jsval \<Rightarrow> hook \<Rightarrow> hook" where
  "asynHandler_catch os val err h =
     (if lastPrms h = Some val then
        (let h1 = dispatch (ERROR err) h
         in case onError os of
              None \<Rightarrow> h1
            | Some f \<Rightarrow> h1\<lparr> calls := calls h1 @ [Failed err] \<rparr>)
      else h)"

text \<open>
  \<^verbatim>\<open>asynHandler(val)\<close> from its \<^verbatim>\<open>await\<close> on: the \<^verbatim>\<open>try\<close> block after a fulfilment, where an
  exception of \<^verbatim>\<open>onCompleted\<close> enters the \<^verbatim>\<open>catch\<close> block, or the \<^verbatim>\<open>catch\<close> block after a
  rejection.
\<close>

fun asynHandler_resume :: "opts \<Rightarrow> promise \<Rightarrow> settlement \<Rightarrow> hook \<Rightarrow> hook" where
  "asynHandler_resume os val (Resolved d) h =
     (if lastPrms h = Some val then
        (let h1 = dispatch (RESULT d) h
         in case onCompleted os of
              None \<Rightarrow> h1
            | Some f \<Rightarrow>
                (let h2 = h1\<lparr> calls := calls h1 @ [Completed d] \<rparr>
                 in case f d of
                      None \<Rightarrow> h2
                    | Some err \<Rightarrow> asynHandler_catch os val err h2))
      else h)"
| "asynHandler_resume os val (Rejected_with err) h = asynHandler_catch os val err h"

text \<open>\<^verbatim>\<open>set(val)\<close>, lines 172 to 179 of the hook.\<close>

fun useAsyncState_set :: "init_arg \<Rightarrow> hook \<Rightarrow> hook" where
  "useAsyncState_set (ArgValue v) h = dispatch (SYNC_RESULT v) h"
| "useAsyncState_set (ArgPromise val) h =
     asynHandler_start val (dispatch (LOADING val) (h\<lparr> lastPrms := Some val \<rparr>))"

text \<open>
  The first render and the mount effect: \<^verbatim>\<open>useRef(state.promise)\<close>, then
  \<^verbatim>\<open>lastPrms.current = state.promise\<close> and a call of \<^verbatim>\<open>asynHandler\<close> when the initial state
  is loading. The initial \<^verbatim>\<open>state.loading\<close> and \<^verbatim>\<open>state.promise\<close> come from the reducer and
  are parameters here.
\<close>

definition useAsyncState_mount :: "bool \<Rightarrow> promise option \<Rightarrow> hook" where
  "useAsyncState_mount state_loading state_promise =
     (let h = \<lparr> lastPrms = state_promise, dispatched = [], calls = [], awaiting = [] \<rparr>
      in case state_promise of
           None \<Rightarrow> h
         | Some p \<Rightarrow> if state_loading then asynHandler_start p h else h)"

text \<open>The cleanup of the effect, run on unmount.\<close>

definition useAsyncState_unmount :: "hook \<Rightarrow> hook" where
  "useAsyncState_unmount h = h\<lparr> lastPrms := None \<rparr>"

text \<open>
  A promise settles: every invocation of \<^verbatim>\<open>asynHandler\<close> that awaits it resumes, in the
  order in which they started to wait.
\<close>

definition promise_settles :: "opts \<Rightarrow> promise \<Rightarrow> settlement \<Rightarrow> hook \<Rightarrow> hook" where
  "promise_settles os p out h =
     fold (\<lambda>q. asynHandler_resume os q out)
          (filter (\<lambda>q. q = p) (awaiting h))
          (h\<lparr> awaiting := filter (\<lambda>q. q \<noteq> p) (awaiting h) \<rparr>)"

datatype event = Set init_arg | Settles promise settlement | Unmount

fun step :: "opts \<Rightarrow> event \<Rightarrow> hook \<Rightarrow> hook" where
  "step os (Set v) h = useAsyncState_set v h"
| "step os (Settles p out) h = promise_settles os p out h"
| "step os Unmount h = useAsyncState_unmount h"

definition run :: "opts \<Rightarrow> event list \<Rightarrow> hook \<Rightarrow> hook" where
  "run os es h = fold (step os) es h"

section \<open>Concrete executions\<close>

text \<open>
  A resource taken through the life cycle of the repository's tests, with the default
  storage throughout: created without data, given data while not loading, sent into
  loading, and then settled in several ways.
\<close>

definition ex_created :: "Resource \<times> world" where
  "ex_created = createResource (ArgValue JUndefined) defaultStorage empty_world"

definition ex_ready :: "Resource \<times> world" where
  "ex_ready = nextResource (fst ex_created)
     \<lparr> loading = False, data = JStr ''test1'', error = JUndefined \<rparr>
     defaultStorage (snd ex_created)"

definition ex_loading :: "Resource \<times> world" where
  "ex_loading = nextResource (fst ex_ready)
     \<lparr> loading = True, data = JUndefined, error = JUndefined \<rparr>
     defaultStorage (snd ex_ready)"

definition ex_resolved :: "Resource \<times> world" where
  "ex_resolved = nextResource (fst ex_loading)
     \<lparr> loading = False, data = JStr ''x'', error = JUndefined \<rparr>
     defaultStorage (snd ex_loading)"

definition ex_rejected :: "Resource \<times> world" where
  "ex_rejected = nextResource (fst ex_loading)
     \<lparr> loading = False, data = JUndefined, error = JStr ''test2'' \<rparr>
     defaultStorage (snd ex_loading)"

definition ex_rejected_null :: "Resource \<times> world" where
  "ex_rejected_null = nextResource (fst ex_loading)
     \<lparr> loading = False, data = JUndefined, error = JNull \<rparr>
     defaultStorage (snd ex_loading)"

definition ex_rejected_zero :: "Resource \<times> world" where
  "ex_rejected_zero = nextResource (fst ex_loading)
     \<lparr> loading = False, data = JUndefined, error = JNum 0 \<rparr>
     defaultStorage (snd ex_loading)"

definition ex_same :: "Resource \<times> world" where
  "ex_same = nextResource (fst ex_created)
     \<lparr> loading = False, data = JUndefined, error = JUndefined \<rparr>
     defaultStorage (snd ex_created)"

text \<open>A hook instance mounted without an initial promise, and options without callbacks.\<close>

definition ex_hook :: hook where
  "ex_hook = useAsyncState_mount False None"

definition no_callbacks :: opts where
  "no_callbacks = \<lparr> onCompleted = None, onError = None \<rparr>"

section \<open>Facts about the classification\<close>

lemma getResourceStateByData_Ready_iff:
  "getResourceStateByData i = Ready \<longleftrightarrow>
     \<not> loading i \<and> error i = JUndefined \<and> truthy (data i)"
  by (simp add: getResourceStateByData_def)

lemma getResourceStateByData_Unresolved_iff:
  "getResourceStateByData i = Unresolved \<longleftrightarrow>
     \<not> loading i \<and> error i = JUndefined \<and> \<not> truthy (data i)"
  by (simp add: getResourceStateByData_def)

lemma getResourceStateByData_Errored_iff:
  "getResourceStateByData i = Errored \<longleftrightarrow> \<not> loading i \<and> error i \<noteq> JUndefined"
  by (simp add: getResourceStateByData_def)

lemma getResourceStateByData_loading_iff:
  "getResourceStateByData i = Pending_state \<or> getResourceStateByData i = Refreshing
     \<longleftrightarrow> loading i"
  by (simp add: getResourceStateByData_def)

text \<open>
  Claim C1. The classification is a total function of the three fields, and an input with
  no data, no loading and no error is \<open>Unresolved\<close>
  (\<open>getResourceStateByData_Unresolved_iff\<close>). The row for \<open>Ready\<close> does not hold for every
  present data value: the last test of the source is the truthiness of \<^verbatim>\<open>i.data\<close>, so the
  data values \<^verbatim>\<open>false\<close>, \<^verbatim>\<open>0\<close> and the empty string, with loading false and no error, are
  classified \<open>Unresolved\<close>, while the first test of the same function counts them as data.
\<close>

theorem getResourceStateByData_falsy_data:
  "getResourceStateByData \<lparr> loading = False, data = JBool False, error = JUndefined \<rparr> = Unresolved
   \<and> getResourceStateByData \<lparr> loading = False, data = JNum 0, error = JUndefined \<rparr> = Unresolved
   \<and> getResourceStateByData \<lparr> loading = False, data = JStr [], error = JUndefined \<rparr> = Unresolved
   \<and> getResourceStateByData \<lparr> loading = True, data = JBool False, error = JUndefined \<rparr> = Refreshing"
  by (simp add: getResourceStateByData_def)

text \<open>
  Claim C10. Precedence of the tests: when \<open>loading\<close> is true the state is \<open>Refreshing\<close> for
  defined data and \<open>Pending_state\<close> otherwise, whatever the error; when \<open>loading\<close> is
  false and the error is defined the state is \<open>Errored\<close>, whatever the data; hence no
  loading input is \<open>Errored\<close>.
\<close>

theorem getResourceStateByData_precedence:
  "(loading i \<longrightarrow>
      getResourceStateByData i = (if data i \<noteq> JUndefined then Refreshing else Pending_state))
   \<and> (\<not> loading i \<and> error i \<noteq> JUndefined \<longrightarrow> getResourceStateByData i = Errored)
   \<and> (loading i \<longrightarrow> getResourceStateByData i \<noteq> Errored)"
  by (simp add: getResourceStateByData_def)

theorem getResourceStateByData_precedence_witness:
  "getResourceStateByData \<lparr> loading = True, data = JUndefined, error = JStr ''e'' \<rparr> = Pending_state
   \<and> getResourceStateByData \<lparr> loading = True, data = JStr ''d'', error = JStr ''e'' \<rparr> = Refreshing
   \<and> getResourceStateByData \<lparr> loading = False, data = JStr ''d'', error = JStr ''e'' \<rparr> = Errored"
proof -
  have "getResourceStateByData \<lparr> loading = True, data = JUndefined, error = JStr ''e'' \<rparr>
          = Pending_state"
    using getResourceStateByData_precedence [of "\<lparr> loading = True, data = JUndefined, error = JStr ''e'' \<rparr>"] by simp
  moreover
  have "getResourceStateByData \<lparr> loading = True, data = JStr ''d'', error = JStr ''e'' \<rparr>
          = Refreshing"
    using getResourceStateByData_precedence [of "\<lparr> loading = True, data = JStr ''d'', error = JStr ''e'' \<rparr>"] by simp
  moreover
  have "getResourceStateByData \<lparr> loading = False, data = JStr ''d'', error = JStr ''e'' \<rparr>
          = Errored"
    using getResourceStateByData_precedence [of "\<lparr> loading = False, data = JStr ''d'', error = JStr ''e'' \<rparr>"] by simp
  ultimately show ?thesis by simp
qed

section \<open>Facts about createResource and nextResource\<close>

lemmas model_defs = createResource_def nextResource_def renew_def resolve_def reject_def
  new_promise_def settle_def storage_set_def storage_get_def storage_delete_def
  getResourceStateByData_def blank_resource_def empty_world_def

text \<open>
  \<^verbatim>\<open>createResource()\<close> without data: an unresolved resource that carries a newly allocated
  pending promise, registered in the storage passed.
\<close>

lemma createResource_no_data:
  "createResource (ArgValue JUndefined) storage w =
     (\<lparr> loading = False, data = JUndefined, error = JUndefined, state = Unresolved,
        latest = JUndefined, promise = Some (length (heap w)) \<rparr>,
      \<lparr> heap = heap w @ [Pending],
        storages = (storages w)(storage :=
          (storages w storage)(length (heap w) \<mapsto> Controls (length (heap w)))) \<rparr>)"
  by (simp add: model_defs)

lemma createResource_classified:
  "state (fst (createResource d storage w)) =
     getResourceStateByData (fst (createResource d storage w))"
  by (simp add: createResource_def getResourceStateByData_def Let_def renew_def new_promise_def
      split: init_arg.splits prod.splits)

lemma nextResource_core:
  "loading (fst (nextResource target d storage w)) = loading d"
  "data (fst (nextResource target d storage w)) = data d"
  "error (fst (nextResource target d storage w)) = error d"
  by (simp_all add: nextResource_def createResource_no_data renew_def new_promise_def Let_def
      split: prod.splits)

lemma nextResource_state:
  "state (fst (nextResource target d storage w)) = getResourceStateByData d"
  by (auto simp: nextResource_def createResource_no_data renew_def new_promise_def Let_def
      getResourceStateByData_def split: prod.splits)

text \<open>The \<open>latest\<close> field of the result is a function of the patch alone.\<close>

lemma nextResource_latest:
  "latest (fst (nextResource target d storage w)) =
     (if nullish (data d) then JUndefined else data d)"
  by (simp add: nextResource_def createResource_no_data renew_def new_promise_def Let_def
      split: prod.splits)

text \<open>
  The promise of the result: the target's when \<open>loading\<close> is unchanged, and otherwise one
  allocated during the call, by \<^verbatim>\<open>createResource()\<close> when loading ends and by \<^verbatim>\<open>renew\<close>
  when loading starts.
\<close>

lemma nextResource_promise:
  "promise (fst (nextResource target d storage w)) =
     (if loading target = loading d then promise target
      else if loading d then Some (Suc (length (heap w)))
      else Some (length (heap w)))"
  by (simp add: nextResource_def createResource_no_data renew_def new_promise_def
      storage_delete_def Let_def split: prod.splits)

lemma nextResource_unchanged_world:
  "loading d = loading target \<Longrightarrow>
     snd (nextResource target d storage w) =
       \<lparr> heap = heap w @ [Pending],
         storages = (storages w)(defaultStorage :=
            (storages w defaultStorage)(length (heap w) \<mapsto> Controls (length (heap w)))) \<rparr>"
  by (simp add: nextResource_def createResource_no_data Let_def)

text \<open>
  With the default storage no promise that existed before the call is settled by it, in
  any of the four branches.
\<close>

lemma nextResource_default_keeps_heap:
  "p < length (heap w) \<Longrightarrow>
     heap (snd (nextResource target d defaultStorage w)) ! p = heap w ! p"
  by (simp add: nextResource_def createResource_no_data renew_def new_promise_def
      resolve_def reject_def storage_get_def storage_delete_def storage_set_def settle_def
      Let_def nth_append)

text \<open>The values of the concrete executions.\<close>

lemma ex_created_eq:
  "ex_created =
     (\<lparr> loading = False, data = JUndefined, error = JUndefined, state = Unresolved,
        latest = JUndefined, promise = Some 0 \<rparr>,
      \<lparr> heap = [Pending],
        storages = (\<lambda>s. Map.empty)(defaultStorage := [0 \<mapsto> Controls 0]) \<rparr>)"
  by (simp add: ex_created_def model_defs)

lemma ex_ready_eq:
  "ex_ready =
     (\<lparr> loading = False, data = JStr ''test1'', error = JUndefined, state = Ready,
        latest = JStr ''test1'', promise = Some 0 \<rparr>,
      \<lparr> heap = [Pending, Pending],
        storages = (\<lambda>s. Map.empty)(defaultStorage :=
          [0 \<mapsto> Controls 0, 1 \<mapsto> Controls 1]) \<rparr>)"
  by (simp add: ex_ready_def ex_created_eq model_defs)

lemma ex_loading_fst:
  "fst ex_loading =
     \<lparr> loading = True, data = JUndefined, error = JUndefined, state = Pending_state,
       latest = JUndefined, promise = Some 3 \<rparr>"
  by (simp add: ex_loading_def ex_ready_eq model_defs)

lemma ex_loading_heap: "heap (snd ex_loading) = [Pending, Pending, Pending, Pending]"
  by (simp add: ex_loading_def ex_ready_eq model_defs)

lemma ex_loading_registry:
  "storages (snd ex_loading) defaultStorage =
     [0 \<mapsto> Controls 0, 1 \<mapsto> Controls 1, 3 \<mapsto> Controls 3]"
  by (simp add: ex_loading_def ex_ready_eq model_defs fun_eq_iff)

lemmas ex_loading_simps = ex_loading_fst ex_loading_heap ex_loading_registry

lemmas settle_defs = nextResource_def createResource_no_data resolve_def reject_def
  storage_get_def storage_delete_def settle_def getResourceStateByData_def

text \<open>
  Claim C2. The promise of the result is kept when \<open>loading\<close> is unchanged and is new when
  loading starts (\<open>nextResource_promise\<close>). When loading ends the claim does not hold:
  the result carries the promise that \<^verbatim>\<open>createResource()\<close> allocated inside the call, that
  promise is the one resolved, and the promise of the loading resource, the one a
  consumer awaits, stays pending and registered. In the execution below promise 3 is the
  loading resource's and promise 4 the result's.
\<close>

theorem nextResource_resolve_leaves_awaited_promise:
  "loading (fst ex_loading) \<and> promise (fst ex_loading) = Some 3
   \<and> \<not> loading (fst ex_resolved) \<and> promise (fst ex_resolved) = Some 4
   \<and> heap (snd ex_resolved) ! 3 = Pending
   \<and> storage_has defaultStorage 3 (snd ex_resolved)
   \<and> heap (snd ex_resolved) ! 4 = Fulfilled (JStr ''x'')
   \<and> \<not> storage_has defaultStorage 4 (snd ex_resolved)"
  by (simp add: ex_resolved_def settle_defs storage_has_def ex_loading_simps)

text \<open>
  Claim C3. The \<open>latest\<close> field is not carried over from the current resource: the result
  starts as \<^verbatim>\<open>createResource()\<close>, whose \<open>latest\<close> is undefined, and only the patch's data can
  set it (\<open>nextResource_latest\<close>). In the execution of the repository's test "keeps latest
  data in the state", \<open>latest\<close> is \<^verbatim>\<open>"test1"\<close> after the data patch and undefined after the
  loading patch that follows.
\<close>

theorem nextResource_latest_lost:
  "latest (fst ex_ready) = JStr ''test1'' \<and> latest (fst ex_loading) = JUndefined"
  by (simp add: ex_ready_eq ex_loading_fst)

text \<open>
  Claim C5. For a loading resource and a patch with \<open>loading\<close> false and the error
  \<^verbatim>\<open>"test2"\<close>, the promise the loading resource carries (3) is neither rejected nor
  removed from the registry; the promise allocated inside the call (4) is rejected, and
  the reason passed to it is the patch's data, here undefined, not the error.
\<close>

theorem nextResource_reject_wrong_promise_and_reason:
  "loading (fst ex_loading) \<and> promise (fst ex_loading) = Some 3
   \<and> error (fst ex_rejected) = JStr ''test2''
   \<and> heap (snd ex_rejected) ! 3 = Pending
   \<and> storage_has defaultStorage 3 (snd ex_rejected)
   \<and> promise (fst ex_rejected) = Some 4
   \<and> heap (snd ex_rejected) ! 4 = Rejected JUndefined
   \<and> \<not> storage_has defaultStorage 4 (snd ex_rejected)"
  by (simp add: ex_rejected_def settle_defs storage_has_def ex_loading_simps)

text \<open>
  Claim C6, as stated, fails on \<^verbatim>\<open>nextResource\<close>: a patch with \<open>loading\<close> false and the
  reason \<^verbatim>\<open>null\<close> yields a resource whose error is the bare \<^verbatim>\<open>null\<close>.
\<close>

theorem nextResource_null_reason_not_wrapped:
  "error (fst ex_rejected_null) = JNull
   \<and> \<not> (state (fst ex_rejected_null) = Errored \<and> \<not> nullish (error (fst ex_rejected_null)))"
  by (simp add: ex_rejected_null_def settle_defs ex_loading_simps)

text \<open>
  Claim C6, amended. \<^verbatim>\<open>nextResource\<close> substitutes nothing: the error of the result is the
  error of the patch. With \<open>loading\<close> false a \<^verbatim>\<open>null\<close> reason gives the state \<open>Errored\<close>
  carrying that \<^verbatim>\<open>null\<close>, and an undefined reason never gives \<open>Errored\<close>.
\<close>

theorem nextResource_error_verbatim:
  "error (fst (nextResource target d storage w)) = error d
   \<and> (\<not> loading d \<and> error d = JNull \<longrightarrow>
        state (fst (nextResource target d storage w)) = Errored)
   \<and> (error d = JUndefined \<longrightarrow> state (fst (nextResource target d storage w)) \<noteq> Errored)"
  by (simp add: nextResource_core nextResource_state getResourceStateByData_def)

theorem nextResource_error_verbatim_witness:
  "error (fst ex_rejected_null) = JNull \<and> state (fst ex_rejected_null) = Errored
   \<and> error (fst ex_resolved) = JUndefined \<and> state (fst ex_resolved) \<noteq> Errored"
proof -
  have "error (fst ex_rejected_null) = JNull \<and> state (fst ex_rejected_null) = Errored"
    using nextResource_error_verbatim
      [of "fst ex_loading" "\<lparr> loading = False, data = JUndefined, error = JNull \<rparr>"
          defaultStorage "snd ex_loading"]
    by (simp add: ex_rejected_null_def)
  moreover
  have "error (fst ex_resolved) = JUndefined \<and> state (fst ex_resolved) \<noteq> Errored"
    using nextResource_error_verbatim
      [of "fst ex_loading" "\<lparr> loading = False, data = JStr ''x'', error = JUndefined \<rparr>"
          defaultStorage "snd ex_loading"]
    by (simp add: ex_resolved_def)
  ultimately show ?thesis by simp
qed

text \<open>
  What holds for a patch identical to the fields of a resource whose state is the
  classification of its fields: the state and the promise are the resource's, no promise
  that existed before the call is settled, and no entry of such a promise is changed or
  removed in any registry.
\<close>

lemma nextResource_same_patch_keeps:
  assumes "loading d = loading target" and "data d = data target"
    and "error d = error target" and "state target = getResourceStateByData target"
  shows "state (fst (nextResource target d storage w)) = state target
       \<and> promise (fst (nextResource target d storage w)) = promise target
       \<and> (\<forall>p < length (heap w).
             heap (snd (nextResource target d storage w)) ! p = heap w ! p
           \<and> (\<forall>s. storages (snd (nextResource target d storage w)) s p = storages w s p))"
proof -
  have "getResourceStateByData d = getResourceStateByData target"
    using assms(1-3) by (simp add: getResourceStateByData_def)
  then have "state (fst (nextResource target d storage w)) = state target"
    using assms(4) by (simp add: nextResource_state)
  moreover have "promise (fst (nextResource target d storage w)) = promise target"
    using assms(1) by (simp add: nextResource_promise)
  moreover have "\<forall>p < length (heap w).
             heap (snd (nextResource target d storage w)) ! p = heap w ! p
           \<and> (\<forall>s. storages (snd (nextResource target d storage w)) s p = storages w s p)"
    by (simp add: nextResource_unchanged_world[OF assms(1)] nth_append)
  ultimately show ?thesis by blast
qed

text \<open>
  The promise that \<^verbatim>\<open>createResource()\<close> allocates inside \<^verbatim>\<open>nextResource\<close> is the one at index
  \<open>length (heap w)\<close>. With the default storage every branch in which \<open>loading\<close> changes
  ends with that promise deregistered: \<^verbatim>\<open>renew\<close> deletes the promise it replaces, and
  \<^verbatim>\<open>resolve\<close> and \<^verbatim>\<open>reject\<close> delete the promise they settle.
\<close>

lemma nextResource_changed_deregisters_inner:
  "loading d \<noteq> loading target \<Longrightarrow>
     \<not> storage_has defaultStorage (length (heap w))
         (snd (nextResource target d defaultStorage w))"
  by (simp add: nextResource_def createResource_no_data renew_def new_promise_def
      resolve_def reject_def storage_get_def storage_delete_def storage_set_def settle_def
      storage_has_def Let_def)

text \<open>
  The branch for unchanged \<open>loading\<close> overwrites \<^verbatim>\<open>result.promise\<close> with the target's and
  leaves the inner promise pending and registered in the default storage, whatever
  storage was passed.
\<close>

lemma nextResource_unchanged_leaves_inner:
  "loading d = loading target \<Longrightarrow>
     storage_has defaultStorage (length (heap w)) (snd (nextResource target d storage w))
   \<and> heap (snd (nextResource target d storage w)) ! length (heap w) = Pending"
  by (simp add: nextResource_unchanged_world storage_has_def)

text \<open>
  Claim C7. A patch identical to the fields of the resource yields the same state and the
  very same promise (\<open>nextResource_same_patch_keeps\<close>), but the call is not free of
  registry mutation. The \<^verbatim>\<open>createResource()\<close> call with which \<^verbatim>\<open>nextResource\<close> builds its
  result allocates a pending promise and registers it in the default storage; the branch
  for unchanged \<open>loading\<close> then replaces \<^verbatim>\<open>result.promise\<close> by the target's without deleting
  that registration, as \<^verbatim>\<open>renew\<close> does for the promise it replaces and as every other
  branch ends up doing (\<open>nextResource_changed_deregisters_inner\<close>). In the execution
  below the resource carries promise 0 before and after the call, and the call leaves
  promise 1 registered, pending and carried by no resource.
\<close>

theorem nextResource_same_patch_adds_entry:
  "loading (fst ex_created) = False \<and> data (fst ex_created) = JUndefined
   \<and> error (fst ex_created) = JUndefined
   \<and> state (fst ex_same) = state (fst ex_created)
   \<and> promise (fst ex_created) = Some 0 \<and> promise (fst ex_same) = Some 0
   \<and> \<not> storage_has defaultStorage 1 (snd ex_created)
   \<and> storage_has defaultStorage 1 (snd ex_same)
   \<and> heap (snd ex_same) ! 1 = Pending"
  by (simp add: ex_same_def ex_created_eq nextResource_unchanged_world nextResource_state
      nextResource_promise getResourceStateByData_def storage_has_def)

section \<open>Facts about the accessor\<close>

lemma accessor_loading:
  "loading res \<Longrightarrow> promise res = Some p \<Longrightarrow> accessor res = Throws_promise p"
  by (simp add: accessor_def)

lemma accessor_pending_refreshing:
  "getResourceStateByData res = Pending_state \<or> getResourceStateByData res = Refreshing \<Longrightarrow>
     promise res = Some p \<Longrightarrow> accessor res = Throws_promise p"
  by (simp add: getResourceStateByData_loading_iff accessor_loading)

lemma accessor_ready:
  "getResourceStateByData res = Ready \<Longrightarrow> accessor res = Returns (data res)"
  by (simp add: getResourceStateByData_Ready_iff accessor_def)

lemma accessor_errored:
  "getResourceStateByData res = Errored \<Longrightarrow>
     accessor res = (if truthy (error res) then Throws_error (error res) else Returns (data res))"
  by (simp add: getResourceStateByData_Errored_iff accessor_def)

text \<open>
  Claim C9. The accessor throws the promise in the states \<open>Pending_state\<close> and
  \<open>Refreshing\<close> and returns the data in the state \<open>Ready\<close> (\<open>accessor_pending_refreshing\<close>,
  \<open>accessor_ready\<close>). In the state \<open>Errored\<close> it throws the error only when the error is
  truthy (\<open>accessor_errored\<close>): the classification tests \<^verbatim>\<open>error !== undefined\<close>, the accessor
  tests \<^verbatim>\<open>if (res.error)\<close>. After a rejection with the reason \<^verbatim>\<open>0\<close> the resource is
  \<open>Errored\<close> and the accessor returns the undefined data.
\<close>

theorem accessor_falsy_error_returns:
  "state (fst ex_rejected_zero) = Errored \<and> error (fst ex_rejected_zero) = JNum 0
   \<and> accessor (fst ex_rejected_zero) = Returns JUndefined"
  by (simp add: ex_rejected_zero_def settle_defs ex_loading_simps accessor_def)

section \<open>Facts about useAsyncState\<close>

lemma asynHandler_catch_stale:
  "lastPrms h \<noteq> Some val \<Longrightarrow> asynHandler_catch os val err h = h"
  by (simp add: asynHandler_catch_def)

text \<open>The race guard: a handler whose promise is not the last one set changes nothing.\<close>

lemma asynHandler_resume_stale:
  "lastPrms h \<noteq> Some val \<Longrightarrow> asynHandler_resume os val out h = h"
  by (cases out) (simp_all add: asynHandler_catch_stale)

lemma asynHandler_catch_awaiting:
  "asynHandler_catch os val err (h\<lparr> awaiting := a \<rparr>) =
     (asynHandler_catch os val err h)\<lparr> awaiting := a \<rparr>"
  by (simp add: asynHandler_catch_def dispatch_def Let_def split: option.splits)

lemma asynHandler_resume_awaiting:
  "asynHandler_resume os val out (h\<lparr> awaiting := a \<rparr>) =
     (asynHandler_resume os val out h)\<lparr> awaiting := a \<rparr>"
  by (cases out)
     (simp_all add: asynHandler_catch_awaiting asynHandler_catch_def dispatch_def Let_def
        split: option.splits)

lemma asynHandler_catch_lastPrms:
  "lastPrms (asynHandler_catch os val err h) = lastPrms h"
  by (simp add: asynHandler_catch_def dispatch_def Let_def split: option.splits)

lemma asynHandler_resume_lastPrms:
  "lastPrms (asynHandler_resume os val out h) = lastPrms h"
  by (cases out)
     (simp_all add: asynHandler_catch_lastPrms dispatch_def Let_def split: option.splits)

text \<open>What the handler of the last promise set sends to the reducer.\<close>

lemma asynHandler_resume_current:
  "lastPrms h = Some val \<Longrightarrow>
     dispatched (asynHandler_resume os val out h) =
       dispatched h @
         (case out of
            Resolved d \<Rightarrow>
              RESULT d #
                (case onCompleted os of
                   None \<Rightarrow> []
                 | Some f \<Rightarrow> (case f d of None \<Rightarrow> [] | Some err \<Rightarrow> [ERROR err]))
          | Rejected_with err \<Rightarrow> [ERROR err])"
  by (cases out)
     (simp_all add: asynHandler_catch_def dispatch_def Let_def split: option.splits)

lemma fold_resume_stale:
  "lastPrms h \<noteq> Some p \<Longrightarrow> \<forall>q \<in> set qs. q = p \<Longrightarrow>
     fold (\<lambda>q. asynHandler_resume os q out) qs h = h"
  by (induction qs) (simp_all add: asynHandler_resume_stale)

lemma promise_settles_stale:
  "lastPrms h \<noteq> Some p \<Longrightarrow>
     promise_settles os p out h = h\<lparr> awaiting := filter (\<lambda>q. q \<noteq> p) (awaiting h) \<rparr>"
  unfolding promise_settles_def by (rule fold_resume_stale) auto

lemma promise_settles_single:
  assumes "filter (\<lambda>q. q = p) (awaiting h) = [p]"
  shows "promise_settles os p out h =
           (asynHandler_resume os p out h)\<lparr> awaiting := filter (\<lambda>q. q \<noteq> p) (awaiting h) \<rparr>"
  unfolding promise_settles_def using assms by (simp add: asynHandler_resume_awaiting)

lemma set_sync_keeps_lastPrms:
  "lastPrms (useAsyncState_set (ArgValue v) h) = lastPrms h"
  by (simp add: dispatch_def)

lemma issued_two:
  "run os [Set (ArgPromise p1), Set (ArgPromise p2)] h =
     h\<lparr> lastPrms := Some p2, dispatched := dispatched h @ [LOADING p1, LOADING p2],
        awaiting := awaiting h @ [p1, p2] \<rparr>"
  by (simp add: run_def dispatch_def asynHandler_start_def)

text \<open>
  Claim C4. Two calls of \<^verbatim>\<open>set\<close> with distinct promises \<open>p1\<close> then \<open>p2\<close>, both issued
  before either settles, \<open>p2\<close> not already awaited by an earlier call. In both settlement
  orders the actions sent to the reducer and the callbacks called are exactly those of
  the handler of \<open>p2\<close> run alone on the state reached after the two calls: the two
  \<^verbatim>\<open>LOADING\<close> actions followed by the outcome of \<open>p2\<close>. The settlement of \<open>p1\<close>, whatever
  it is and whenever it arrives, contributes nothing.
\<close>

theorem race_guard_last_issued_wins:
  assumes "p1 \<noteq> p2" and "p2 \<notin> set (awaiting h)"
  shows "dispatched (run os [Set (ArgPromise p1), Set (ArgPromise p2),
                             Settles p1 o1, Settles p2 o2] h)
           = dispatched (asynHandler_resume os p2 o2
               (run os [Set (ArgPromise p1), Set (ArgPromise p2)] h))
       \<and> dispatched (run os [Set (ArgPromise p1), Set (ArgPromise p2),
                             Settles p2 o2, Settles p1 o1] h)
           = dispatched (asynHandler_resume os p2 o2
               (run os [Set (ArgPromise p1), Set (ArgPromise p2)] h))
       \<and> calls (run os [Set (ArgPromise p1), Set (ArgPromise p2),
                        Settles p1 o1, Settles p2 o2] h)
           = calls (asynHandler_resume os p2 o2
               (run os [Set (ArgPromise p1), Set (ArgPromise p2)] h))
       \<and> calls (run os [Set (ArgPromise p1), Set (ArgPromise p2),
                        Settles p2 o2, Settles p1 o1] h)
           = calls (asynHandler_resume os p2 o2
               (run os [Set (ArgPromise p1), Set (ArgPromise p2)] h))
       \<and> dispatched (asynHandler_resume os p2 o2
               (run os [Set (ArgPromise p1), Set (ArgPromise p2)] h))
           = dispatched h @ [LOADING p1, LOADING p2] @
               (case o2 of
                  Resolved d \<Rightarrow>
                    RESULT d #
                      (case onCompleted os of
                         None \<Rightarrow> []
                       | Some f \<Rightarrow> (case f d of None \<Rightarrow> [] | Some err \<Rightarrow> [ERROR err]))
                | Rejected_with err \<Rightarrow> [ERROR err])"
proof -
  define i where "i = run os [Set (ArgPromise p1), Set (ArgPromise p2)] h"
  define a1 where "a1 = promise_settles os p1 o1 i"
  define b2 where "b2 = promise_settles os p2 o2 i"
  have last: "lastPrms i = Some p2" by (simp add: i_def issued_two)
  have aw: "awaiting i = awaiting h @ [p1, p2]" by (simp add: i_def issued_two)
  have di: "dispatched i = dispatched h @ [LOADING p1, LOADING p2]"
    by (simp add: i_def issued_two)
  have nomem: "filter (\<lambda>q. q = p2) (awaiting h) = []"
    using assms(2) by (auto simp: filter_empty_conv)
  have "lastPrms i \<noteq> Some p1" using assms(1) by (simp add: last)
  then have a1: "a1 = i\<lparr> awaiting := filter (\<lambda>q. q \<noteq> p1) (awaiting i) \<rparr>"
    unfolding a1_def by (rule promise_settles_stale)
  have "filter (\<lambda>q. q = p2) (awaiting a1) = [p2]"
    using assms by (auto simp: a1 aw filter_empty_conv)
  then have "promise_settles os p2 o2 a1 =
      (asynHandler_resume os p2 o2 a1)\<lparr> awaiting := filter (\<lambda>q. q \<noteq> p2) (awaiting a1) \<rparr>"
    by (rule promise_settles_single)
  then have A: "promise_settles os p2 o2 a1 =
      (asynHandler_resume os p2 o2 i)\<lparr> awaiting := filter (\<lambda>q. q \<noteq> p2) (awaiting a1) \<rparr>"
    by (simp add: a1 asynHandler_resume_awaiting)
  have "filter (\<lambda>q. q = p2) (awaiting i) = [p2]"
    using assms(1) nomem by (simp add: aw)
  then have b2: "b2 =
      (asynHandler_resume os p2 o2 i)\<lparr> awaiting := filter (\<lambda>q. q \<noteq> p2) (awaiting i) \<rparr>"
    unfolding b2_def by (rule promise_settles_single)
  have "lastPrms b2 \<noteq> Some p1"
    using assms(1) by (simp add: b2 asynHandler_resume_lastPrms last)
  then have B: "promise_settles os p1 o1 b2 =
      b2\<lparr> awaiting := filter (\<lambda>q. q \<noteq> p1) (awaiting b2) \<rparr>"
    by (rule promise_settles_stale)
  have runA: "run os [Set (ArgPromise p1), Set (ArgPromise p2), Settles p1 o1, Settles p2 o2] h
      = promise_settles os p2 o2 a1"
    by (simp add: run_def a1_def i_def)
  have runB: "run os [Set (ArgPromise p1), Set (ArgPromise p2), Settles p2 o2, Settles p1 o1] h
      = promise_settles os p1 o1 b2"
    by (simp add: run_def b2_def i_def)
  have explicit: "dispatched (asynHandler_resume os p2 o2 i) =
      dispatched h @ [LOADING p1, LOADING p2] @
        (case o2 of
           Resolved d \<Rightarrow>
             RESULT d #
               (case onCompleted os of
                  None \<Rightarrow> []
                | Some f \<Rightarrow> (case f d of None \<Rightarrow> [] | Some err \<Rightarrow> [ERROR err]))
         | Rejected_with err \<Rightarrow> [ERROR err])"
    by (simp add: asynHandler_resume_current[OF last] di)
  show ?thesis
    unfolding runA runB A B i_def[symmetric] using explicit by (simp add: b2)
qed

theorem race_guard_last_issued_wins_witness:
  "(0::nat) \<noteq> 1 \<and> 1 \<notin> set (awaiting ex_hook)
   \<and> dispatched (run no_callbacks [Set (ArgPromise 0), Set (ArgPromise 1),
        Settles 0 (Resolved (JStr ''a'')), Settles 1 (Resolved (JStr ''b''))] ex_hook)
       = [LOADING 0, LOADING 1, RESULT (JStr ''b'')]
   \<and> dispatched (run no_callbacks [Set (ArgPromise 0), Set (ArgPromise 1),
        Settles 1 (Resolved (JStr ''b'')), Settles 0 (Resolved (JStr ''a''))] ex_hook)
       = [LOADING 0, LOADING 1, RESULT (JStr ''b'')]"
proof -
  have ne: "(0::nat) \<noteq> 1" by simp
  have fresh: "1 \<notin> set (awaiting ex_hook)"
    by (simp add: ex_hook_def useAsyncState_mount_def)
  have start: "dispatched ex_hook = []" "onCompleted no_callbacks = None"
    by (simp_all add: ex_hook_def useAsyncState_mount_def no_callbacks_def)
  from race_guard_last_issued_wins
    [OF ne fresh, of no_callbacks "Resolved (JStr ''a'')" "Resolved (JStr ''b'')"]
  show ?thesis using ne fresh by (simp add: start)
qed

text \<open>
  Claim C8. \<^verbatim>\<open>set\<close> with a value that is not a promise dispatches \<^verbatim>\<open>SYNC-RESULT\<close> and
  returns before \<^verbatim>\<open>lastPrms\<close> is touched (\<open>set_sync_keeps_lastPrms\<close>), so the promise of a
  call in flight is still the last one set. When that promise settles afterwards the
  guard lets it through and its \<^verbatim>\<open>RESULT\<close> is dispatched after the synthetic value.
\<close>

theorem set_sync_value_not_guarded:
  "dispatched (run no_callbacks
      [Set (ArgPromise 0), Set (ArgValue (JStr ''v'')), Settles 0 (Resolved (JStr ''d''))]
      ex_hook)
     = [LOADING 0, SYNC_RESULT (JStr ''v''), RESULT (JStr ''d'')]"
  by (simp add: run_def ex_hook_def no_callbacks_def useAsyncState_mount_def dispatch_def
      asynHandler_start_def promise_settles_def)

end
